theory Spec2Isabelle
  imports Complex_Main "HOL-Library.Log_Nat"
begin

section \<open>Python values shared by the services\<close>

text \<open>
  The scores, sums and balances are modelled on exact rationals: the bounds and
  structural statements about them are statements about the arithmetic the code writes
  down. The body mass index, where rounding, overflow and underflow decide what the
  function returns, is modelled on binary floating point.
\<close>

datatype error =
    ZeroDivisionError
  | OverflowError
  | TypeError
  | AttributeError string string
  | HTTPException nat string

text \<open>Python's \<open>round(x, 2)\<close> on an exact value: nearest multiple of 1/100, ties to even.\<close>

definition round_half_even :: "rat \<Rightarrow> int" where
  "round_half_even q =
     (let f = \<lfloor>q\<rfloor>; d = q - of_int f
      in if d < 1 / 2 then f
         else if 1 / 2 < d then f + 1
         else if even f then f else f + 1)"

definition py_round2 :: "rat \<Rightarrow> rat" where
  "py_round2 x = of_int (round_half_even (x * 100)) / 100"

section \<open>Dates and the ORM layer\<close>

text \<open>
  A \<open>datetime\<close> is the number of microseconds since 0001-01-01 00:00:00, the first
  instant Python can represent; the last one is 9999-12-31 23:59:59.999999.
  \<open>timedelta(days=n)\<close> raises \<open>OverflowError\<close> beyond 999999999 days, and so does a
  subtraction that leaves the representable range.
\<close>

type_synonym datetime = int

definition us_per_day :: int where
  "us_per_day = 86400000000"

definition datetime_max :: datetime where
  "datetime_max = 3652059 * us_per_day - 1"

definition datetime_minus_days :: "datetime \<Rightarrow> int \<Rightarrow> error + datetime" where
  "datetime_minus_days t n =
     (if 999999999 < \<bar>n\<bar> then Inl OverflowError
      else (let r = t - n * us_per_day
            in if r < 0 \<or> datetime_max < r then Inl OverflowError else Inr r))"

text \<open>
  The calendar of Python's \<open>datetime\<close> (proleptic Gregorian, day 1 is 0001-01-01):
  \<open>_ymd2ord\<close> and \<open>_ord2ymd\<close> of the standard library.
\<close>

definition is_leap :: "int \<Rightarrow> bool" where
  "is_leap y = (y mod 4 = 0 \<and> (y mod 100 \<noteq> 0 \<or> y mod 400 = 0))"

definition days_before_year :: "int \<Rightarrow> int" where
  "days_before_year y = (y - 1) * 365 + (y - 1) div 4 - (y - 1) div 100 + (y - 1) div 400"

definition days_in_month :: "int \<Rightarrow> int \<Rightarrow> int" where
  "days_in_month y m =
     (if m = 2 then (if is_leap y then 29 else 28)
      else if m = 4 \<or> m = 6 \<or> m = 9 \<or> m = 11 then 30 else 31)"

definition days_before_month :: "int \<Rightarrow> int \<Rightarrow> int" where
  "days_before_month y m = sum_list (map (days_in_month y) [1 ..< nat m])"

definition ymd2ord :: "int \<Rightarrow> int \<Rightarrow> int \<Rightarrow> int" where
  "ymd2ord y m d = days_before_year y + days_before_month y m + d"

definition ord2ymd :: "int \<Rightarrow> int \<times> int \<times> int" where
  "ord2ymd ordinal =
     (let n0 = ordinal - 1;
          n400 = n0 div 146097; n1 = n0 mod 146097;
          n100 = n1 div 36524; n2 = n1 mod 36524;
          n4 = n2 div 1461; n3 = n2 mod 1461;
          n1y = n3 div 365; n = n3 mod 365;
          year = n400 * 400 + 1 + n100 * 100 + n4 * 4 + n1y
      in if n1y = 4 \<or> n100 = 4 then (year - 1, 12, 31)
         else (let leapyear = (n1y = 3 \<and> (n4 \<noteq> 24 \<or> n100 = 3));
                   month0 = (n + 50) div 32;
                   preceding0 = days_before_month (if leapyear then 4 else 1) month0;
                   month = (if n < preceding0 then month0 - 1 else month0);
                   preceding = days_before_month (if leapyear then 4 else 1) month
               in (year, month, n - preceding + 1)))"

definition datetime_ymd :: "int \<Rightarrow> int \<Rightarrow> int \<Rightarrow> datetime" where
  "datetime_ymd y m d = (ymd2ord y m d - 1) * us_per_day"

definition year_month :: "datetime \<Rightarrow> int \<times> int" where
  "year_month t = (case ord2ymd (t div us_per_day + 1) of (y, m, _) \<Rightarrow> (y, m))"

definition bindE :: "error + 'a \<Rightarrow> ('a \<Rightarrow> error + 'b) \<Rightarrow> error + 'b" where
  "bindE m f = (case m of Inl e \<Rightarrow> Inl e | Inr x \<Rightarrow> f x)"

text \<open>
  The intelligence engine reads its tables through attribute names. A mapped class is
  its name with the attributes its declaration in \<open>app/models\<close> gives it (columns and
  relationships); a loaded row is the list of its column values. Reading an attribute
  the class does not declare raises \<open>AttributeError\<close>, on the class (inside a
  \<open>filter\<close> expression) as on an instance.
\<close>

datatype val = VNone | VBool bool | VInt int | VNum rat | VStr string | VDateTime datetime

type_synonym row = "(string \<times> val) list"
type_synonym model_class = "string \<times> string list"

definition class_attr :: "model_class \<Rightarrow> string \<Rightarrow> error + unit" where
  "class_attr cls a =
     (if a \<in> set (snd cls) then Inr () else Inl (AttributeError (fst cls) a))"

definition inst_attr :: "model_class \<Rightarrow> row \<Rightarrow> string \<Rightarrow> error + val" where
  "inst_attr cls r a =
     (if a \<in> set (snd cls)
      then Inr (case map_of r a of Some v \<Rightarrow> v | None \<Rightarrow> VNone)
      else Inl (AttributeError (fst cls) a))"

definition truthy :: "val \<Rightarrow> bool" where
  "truthy v = (case v of VNone \<Rightarrow> False | VBool b \<Rightarrow> b | VInt i \<Rightarrow> i \<noteq> 0
               | VNum x \<Rightarrow> x \<noteq> 0 | VStr s \<Rightarrow> s \<noteq> [] | VDateTime _ \<Rightarrow> True)"

definition num_of :: "val \<Rightarrow> error + rat" where
  "num_of v = (case v of VInt i \<Rightarrow> Inr (of_int i) | VNum x \<Rightarrow> Inr x
               | VBool b \<Rightarrow> Inr (if b then 1 else 0) | _ \<Rightarrow> Inl TypeError)"

definition dt_of :: "row \<Rightarrow> string \<Rightarrow> datetime option" where
  "dt_of r a = (case map_of r a of Some (VDateTime t) \<Rightarrow> Some t | _ \<Rightarrow> None)"

text \<open>\<open>query(C).filter(C.user_id == uid, C.col >= cutoff).all()\<close>: the two class
  attributes are resolved left to right, then the rows are selected (a NULL never
  satisfies a comparison).\<close>

definition query_user_since ::
  "model_class \<Rightarrow> row list \<Rightarrow> int \<Rightarrow> string \<Rightarrow> datetime \<Rightarrow> error + row list" where
  "query_user_since cls rows uid col cutoff =
     bindE (class_attr cls ''user_id'') (\<lambda>_.
     bindE (class_attr cls col) (\<lambda>_.
       Inr (filter (\<lambda>r. map_of r ''user_id'' = Some (VInt uid)
                         \<and> (case dt_of r col of Some t \<Rightarrow> cutoff \<le> t | None \<Rightarrow> False))
              rows)))"

text \<open>The same query followed by \<open>.order_by(C.col)\<close>.\<close>

definition query_user_since_ordered ::
  "model_class \<Rightarrow> row list \<Rightarrow> int \<Rightarrow> string \<Rightarrow> datetime \<Rightarrow> error + row list" where
  "query_user_since_ordered cls rows uid col cutoff =
     bindE (query_user_since cls rows uid col cutoff) (\<lambda>rs.
     bindE (class_attr cls col) (\<lambda>_.
       Inr (sort_key (\<lambda>r. case dt_of r col of Some t \<Rightarrow> t | None \<Rightarrow> 0) rs)))"

text \<open>\<open>[r.a for r in rows]\<close>.\<close>

fun attr_list :: "model_class \<Rightarrow> string \<Rightarrow> row list \<Rightarrow> error + val list" where
  "attr_list cls a [] = Inr []"
| "attr_list cls a (r # rs) =
     bindE (inst_attr cls r a) (\<lambda>v.
     bindE (attr_list cls a rs) (\<lambda>vs. Inr (v # vs)))"

fun sum_vals :: "val list \<Rightarrow> error + rat" where
  "sum_vals [] = Inr 0"
| "sum_vals (v # vs) =
     bindE (num_of v) (\<lambda>x. bindE (sum_vals vs) (\<lambda>acc. Inr (x + acc)))"

subsection \<open>Declared attributes of the mapped classes\<close>

definition WorkSession :: model_class where
  "WorkSession = (''WorkSession'',
     [''id'', ''user_id'', ''start_time'', ''end_time'', ''duration_hours'', ''work_type'',
      ''project'', ''is_overtime'', ''location'', ''breaks_taken'', ''productivity_rating'',
      ''stress_level'', ''notes'', ''created_at'', ''updated_at'', ''user''])"

definition BoundaryViolation :: model_class where
  "BoundaryViolation = (''BoundaryViolation'',
     [''id'', ''boundary_id'', ''violation_date'', ''circumstances'', ''impact'',
      ''was_necessary'', ''lesson_learned'', ''created_at'', ''boundary''])"

definition SleepEntry :: model_class where
  "SleepEntry = (''SleepEntry'',
     [''id'', ''user_id'', ''sleep_hours'', ''sleep_quality'', ''bedtime'', ''wake_time'',
      ''notes'', ''created_at''])"

definition MoodEntry :: model_class where
  "MoodEntry = (''MoodEntry'',
     [''id'', ''user_id'', ''mood_score'', ''energy_level'', ''stress_level'', ''notes'',
      ''created_at''])"

definition HealthExercise :: model_class where
  "HealthExercise = (''Exercise'',
     [''id'', ''user_id'', ''exercise_type'', ''name'', ''duration_minutes'',
      ''calories_burned'', ''intensity'', ''distance'', ''heart_rate_avg'', ''heart_rate_max'',
      ''notes'', ''exercise_date'', ''created_at'', ''updated_at'', ''user''])"

definition DeepWorkSession :: model_class where
  "DeepWorkSession = (''DeepWorkSession'',
     [''id'', ''user_id'', ''start_time'', ''end_time'', ''duration_minutes'', ''task_id'',
      ''project'', ''focus_score'', ''interruptions'', ''context'', ''energy_before'',
      ''energy_after'', ''output_quality'', ''was_planned'', ''notes'', ''created_at'',
      ''updated_at'', ''user'', ''task''])"

definition Transaction :: model_class where
  "Transaction = (''Transaction'',
     [''id'', ''user_id'', ''transaction_type'', ''category'', ''amount'', ''description'',
      ''transaction_date'', ''merchant'', ''tags'', ''created_at'', ''updated_at'', ''user''])"

section \<open>Tables\<close>

subsection \<open>models/financial.py, models/user.py, models/preferences.py\<close>

datatype TransactionType = INCOME | EXPENSE | TRANSFER

datatype TransactionCategory =
    SALARY | FREELANCE | INVESTMENT_INCOME | OTHER_INCOME
  | HOUSING | TRANSPORTATION | FOOD | UTILITIES | HEALTHCARE | ENTERTAINMENT
  | SHOPPING | EDUCATION | DEBT_PAYMENT | SAVINGS | OTHER_EXPENSE

fun type_value :: "TransactionType \<Rightarrow> string" where
  "type_value INCOME = ''income''"
| "type_value EXPENSE = ''expense''"
| "type_value TRANSFER = ''transfer''"

fun category_value :: "TransactionCategory \<Rightarrow> string" where
  "category_value SALARY = ''salary''"
| "category_value FREELANCE = ''freelance''"
| "category_value INVESTMENT_INCOME = ''investment_income''"
| "category_value OTHER_INCOME = ''other_income''"
| "category_value HOUSING = ''housing''"
| "category_value TRANSPORTATION = ''transportation''"
| "category_value FOOD = ''food''"
| "category_value UTILITIES = ''utilities''"
| "category_value HEALTHCARE = ''healthcare''"
| "category_value ENTERTAINMENT = ''entertainment''"
| "category_value SHOPPING = ''shopping''"
| "category_value EDUCATION = ''education''"
| "category_value DEBT_PAYMENT = ''debt_payment''"
| "category_value SAVINGS = ''savings''"
| "category_value OTHER_EXPENSE = ''other_expense''"

text \<open>\<open>TransactionBase\<close> of schemas/financial.py is the payload of a creation; a stored
  transaction extends it with the key, the owner and the two timestamps.\<close>

record transaction_base =
  transaction_type :: TransactionType
  category :: TransactionCategory
  amount :: rat
  description :: "string option"
  transaction_date :: datetime
  merchant :: "string option"
  tags :: "string option"

record transaction = transaction_base +
  tx_id :: int
  tx_user_id :: int
  tx_created_at :: "datetime option"
  tx_updated_at :: "datetime option"

record investment =
  inv_id :: int
  inv_user_id :: int
  inv_name :: string
  inv_symbol :: "string option"
  quantity :: rat
  purchase_price :: rat
  current_price :: "rat option"
  purchase_date :: datetime

record debt =
  debt_id :: int
  debt_user_id :: int
  debt_name :: string
  original_amount :: rat
  current_balance :: rat
  interest_rate :: rat
  minimum_payment :: rat
  is_active :: "int option"

record user =
  user_id :: int
  email :: string
  username :: string
  user_is_active :: bool

text \<open>Of \<open>UserPreferences\<close> the notification settings are the columns any modelled
  function reads; each is a nullable boolean.\<close>

record user_preferences =
  pref_id :: int
  pref_user_id :: int
  enable_email_notifications :: "bool option"
  enable_push_notifications :: "bool option"
  daily_briefing_enabled :: "bool option"
  alert_critical_enabled :: "bool option"
  alert_high_enabled :: "bool option"
  alert_medium_enabled :: "bool option"

record notification_log =
  nl_id :: int
  nl_user_id :: int
  notification_type :: string
  nl_category :: string
  title :: string
  message :: string
  status :: string
  delivery_method :: "string option"
  sent_at :: "datetime option"
  delivered_at :: "datetime option"
  read_at :: "datetime option"
  extra_data :: "string option"

text \<open>The database a session sees: one list of rows per table, in storage order. The
  primary key \<open>id\<close> identifies a row of its table.\<close>

record database =
  users :: "user list"
  transactions :: "transaction list"
  investments :: "investment list"
  debts :: "debt list"
  preferences :: "user_preferences list"
  notification_logs :: "notification_log list"
  work_sessions :: "row list"
  boundary_violations :: "row list"
  sleep_entries :: "row list"
  mood_entries :: "row list"
  exercises :: "row list"
  deep_work_sessions :: "row list"

definition opt_val :: "('a \<Rightarrow> val) \<Rightarrow> 'a option \<Rightarrow> val" where
  "opt_val f x = (case x of None \<Rightarrow> VNone | Some y \<Rightarrow> f y)"

definition Transaction_row :: "transaction \<Rightarrow> row" where
  "Transaction_row t =
     [(''id'', VInt (tx_id t)), (''user_id'', VInt (tx_user_id t)),
      (''transaction_type'', VStr (type_value (transaction_type t))),
      (''category'', VStr (category_value (category t))),
      (''amount'', VNum (amount t)),
      (''description'', opt_val VStr (description t)),
      (''transaction_date'', VDateTime (transaction_date t)),
      (''merchant'', opt_val VStr (merchant t)),
      (''tags'', opt_val VStr (tags t)),
      (''created_at'', opt_val VDateTime (tx_created_at t)),
      (''updated_at'', opt_val VDateTime (tx_updated_at t))]"

section \<open>services/health\_calculations.py\<close>

subsection \<open>Binary floating point\<close>

text \<open>
  What \<open>calculate_bmi\<close> returns depends on how floats round, overflow and
  underflow, so that function is modelled on binary64 values: a finite value is the
  rational it denotes (the two zeros are not told apart; they compare equal in Python),
  next to the two infinities and NaN.
\<close>

datatype pyfloat = Fin rat | PInf | NInf | NaN

text \<open>\<open>ilog2 x\<close> is the exponent of the binade of a non-zero \<open>x\<close>:
  \<open>2 ^ ilog2 x \<le> |x| < 2 ^ (ilog2 x + 1)\<close>.\<close>

definition ilog2 :: "rat \<Rightarrow> int" where
  "ilog2 x =
     (case quotient_of \<bar>x\<bar> of (n, d) \<Rightarrow>
        let e0 = bitlen n - bitlen d in if 2 powi e0 \<le> \<bar>x\<bar> then e0 else e0 - 1)"

text \<open>
  Rounding to nearest, ties to even: a value is rounded to a multiple of its quantum,
  53 significant bits in the normal range and multiples of \<open>2 ^ -1074\<close> below it; a
  result of magnitude \<open>2 ^ 1024\<close> or more is an infinity.
\<close>

definition quantum :: "rat \<Rightarrow> int" where
  "quantum x = max (ilog2 x - 52) (- 1074)"

definition on_grid :: "rat \<Rightarrow> rat" where
  "on_grid x = of_int (round_half_even (x / 2 powi quantum x)) * 2 powi quantum x"

definition fl :: "rat \<Rightarrow> pyfloat" where
  "fl x =
     (if x = 0 then Fin 0
      else if 2 powi 1024 \<le> \<bar>on_grid x\<bar> then (if 0 < x then PInf else NInf)
      else Fin (on_grid x))"







subsection \<open>\<open>HealthCalculator.calculate_bmi\<close>\<close>



subsection \<open>\<open>HealthCalculator.calculate_health_score\<close>\<close>

text \<open>
  The six arguments are optional; \<open>if bmi:\<close>, \<open>if sleep_avg:\<close>,
  \<open>if blood_pressure_systolic:\<close> and \<open>if heart_rate:\<close> test truthiness (absent or
  zero is false), \<open>exercise_days\<close> and \<open>nutrition_score\<close> are tested against
  \<open>None\<close>. The dictionary \<open>scores\<close> is kept in insertion order as a list of
  (name, score, max).
\<close>

definition truthy_num :: "('a::zero) option \<Rightarrow> bool" where
  "truthy_num v = (case v of None \<Rightarrow> False | Some x \<Rightarrow> x \<noteq> 0)"

definition bmi_points :: "rat option \<Rightarrow> rat" where
  "bmi_points bmi =
     (if truthy_num bmi then
        (let b = the bmi in
         if 185 / 10 \<le> b \<and> b < 25 then 20
         else if (17 \<le> b \<and> b < 185 / 10) \<or> (25 \<le> b \<and> b < 27) then 15
         else if (16 \<le> b \<and> b < 17) \<or> (27 \<le> b \<and> b < 30) then 10
         else 5)
      else 0)"

definition sleep_points :: "rat option \<Rightarrow> rat" where
  "sleep_points sleep_avg =
     (if truthy_num sleep_avg then
        (let s = the sleep_avg in
         if 7 \<le> s \<and> s \<le> 9 then 20
         else if (6 \<le> s \<and> s < 7) \<or> (9 < s \<and> s \<le> 10) then 15
         else if (5 \<le> s \<and> s < 6) \<or> (10 < s \<and> s \<le> 11) then 10
         else 5)
      else 0)"

definition exercise_points :: "int option \<Rightarrow> rat" where
  "exercise_points exercise_days =
     (case exercise_days of
        Some d \<Rightarrow> (if 5 \<le> d then 25 else if 3 \<le> d then 20 else if 1 \<le> d then 15 else 5)
      | None \<Rightarrow> 0)"

definition nutrition_points :: "rat option \<Rightarrow> rat" where
  "nutrition_points nutrition_score =
     (case nutrition_score of Some n \<Rightarrow> (n / 100) * 20 | None \<Rightarrow> 0)"

definition bp_points :: "int option \<Rightarrow> rat" where
  "bp_points blood_pressure_systolic =
     (if truthy_num blood_pressure_systolic then
        (let p = the blood_pressure_systolic in
         if 90 \<le> p \<and> p \<le> 120 then 75 / 10
         else if 121 \<le> p \<and> p \<le> 129 then 5
         else 25 / 10)
      else 0)"

definition hr_points :: "int option \<Rightarrow> rat" where
  "hr_points heart_rate =
     (if truthy_num heart_rate then
        (let h = the heart_rate in
         if 60 \<le> h \<and> h \<le> 80 then 75 / 10
         else if (50 \<le> h \<and> h < 60) \<or> (80 < h \<and> h \<le> 100) then 5
         else 25 / 10)
      else 0)"

definition grade_of :: "rat \<Rightarrow> string" where
  "grade_of percentage =
     (if 90 \<le> percentage then ''A+''
      else if 80 \<le> percentage then ''A''
      else if 70 \<le> percentage then ''B''
      else if 60 \<le> percentage then ''C''
      else if 50 \<le> percentage then ''D''
      else ''F'')"

record health_score =
  overall_score :: rat
  max_score :: rat
  percentage :: rat
  grade :: string
  breakdown :: "(string \<times> rat \<times> rat) list"

definition calculate_health_score ::
  "rat option \<Rightarrow> rat option \<Rightarrow> int option \<Rightarrow> rat option \<Rightarrow> int option \<Rightarrow> int option
   \<Rightarrow> health_score" where
  "calculate_health_score bmi sleep_avg exercise_days nutrition_score
       blood_pressure_systolic heart_rate =
     (let scores =
            [(''bmi'', bmi_points bmi, 20),
             (''sleep'', sleep_points sleep_avg, 20),
             (''exercise'', exercise_points exercise_days, 25),
             (''nutrition'', py_round2 (nutrition_points nutrition_score), 20),
             (''vitals'',
                py_round2 (0 + bp_points blood_pressure_systolic + hr_points heart_rate), 15)];
          total_score = sum_list (map (\<lambda>(_, s, _). s) scores);
          max_total = sum_list (map (\<lambda>(_, _, m). m) scores);
          pct = (if 0 < max_total then total_score / max_total * 100 else 0)
      in \<lparr> overall_score = py_round2 total_score,
           max_score = max_total,
           percentage = py_round2 pct,
           grade = grade_of pct,
           breakdown = scores \<rparr>)"


section \<open>services/intelligence\_engine.py\<close>

subsection \<open>\<open>IntelligenceEngine.predict_burnout_risk\<close>\<close>

text \<open>The arithmetic of the risk score, on the three aggregates the function computes.\<close>

definition burnout_risk_score :: "rat \<Rightarrow> int \<Rightarrow> rat \<Rightarrow> rat" where
  "burnout_risk_score avg_daily_hours violations avg_sleep_quality =
     0 + (if 8 < avg_daily_hours then min 40 ((avg_daily_hours - 8) * 5) else 0)
       + min 30 (of_int violations * (25 / 10))
       + max 0 ((7 - avg_sleep_quality) * 4)"

definition burnout_prevention_recommendations :: "rat \<Rightarrow> string list" where
  "burnout_prevention_recommendations risk_score =
     (if 50 < risk_score
      then [''Schedule immediate time off or vacation'',
            ''Reduce work hours to 40 hours per week maximum'']
      else [])
     @ (if 30 < risk_score
        then [''Set strict boundaries for after-hours work'',
              ''Improve sleep quality through better sleep hygiene'']
        else [])
     @ [''Practice daily stress management techniques'',
        ''Increase physical activity and exercise'']"

record burnout_prediction =
  prediction_type :: string
  pillar :: string
  target_metric :: string
  current_value :: rat
  predicted_value :: rat
  confidence_level :: rat
  factor_work_hours :: rat
  factor_boundary_violations :: int
  factor_sleep_quality :: rat
  trend_direction :: string
  likelihood :: string
  recommendations :: "string list"

definition burnout_result :: "rat \<Rightarrow> int \<Rightarrow> rat \<Rightarrow> burnout_prediction" where
  "burnout_result avg_daily_hours violations avg_sleep_quality =
     (let risk_score = burnout_risk_score avg_daily_hours violations avg_sleep_quality
      in \<lparr> prediction_type = ''burnout'',
           pillar = ''worklife'',
           target_metric = ''burnout_risk'',
           current_value = risk_score,
           predicted_value = min 100 (risk_score * (11 / 10)),
           confidence_level = 75,
           factor_work_hours = avg_daily_hours,
           factor_boundary_violations = violations,
           factor_sleep_quality = avg_sleep_quality,
           trend_direction = (if risk_score < 50 then ''stable'' else ''declining''),
           likelihood =
             (if risk_score < 20 then ''very_low''
              else if risk_score < 40 then ''low''
              else if risk_score < 60 then ''medium''
              else if risk_score < 80 then ''high''
              else ''very_high''),
           recommendations = burnout_prevention_recommendations risk_score \<rparr>)"

text \<open>\<open>sum(s.duration_minutes or 0 for s in work_sessions)\<close>.\<close>

fun sum_attr_or_0 :: "model_class \<Rightarrow> string \<Rightarrow> row list \<Rightarrow> error + rat" where
  "sum_attr_or_0 cls a [] = Inr 0"
| "sum_attr_or_0 cls a (r # rs) =
     bindE (inst_attr cls r a) (\<lambda>v.
     bindE (num_of (if truthy v then v else VInt 0)) (\<lambda>x.
     bindE (sum_attr_or_0 cls a rs) (\<lambda>acc. Inr (x + acc))))"

text \<open>\<open>np.mean\<close> of a non-empty list of numbers.\<close>

definition np_mean :: "val list \<Rightarrow> error + rat" where
  "np_mean vs = bindE (sum_vals vs) (\<lambda>t. Inr (t / of_nat (length vs)))"

definition predict_burnout_risk ::
  "database \<Rightarrow> int \<Rightarrow> datetime \<Rightarrow> error + burnout_prediction" where
  "predict_burnout_risk db uid utcnow =
     bindE (datetime_minus_days utcnow 30) (\<lambda>cutoff_date.
     bindE (query_user_since WorkSession (work_sessions db) uid ''start_time'' cutoff_date)
       (\<lambda>sessions.
     bindE (sum_attr_or_0 WorkSession ''duration_minutes'' sessions) (\<lambda>total_work_minutes.
     let avg_daily_hours = (total_work_minutes / 60) / 30 in
     bindE (query_user_since BoundaryViolation (boundary_violations db) uid
              ''occurred_at'' cutoff_date) (\<lambda>vs.
     let violations = int (length vs) in
     bindE (query_user_since SleepEntry (sleep_entries db) uid ''created_at'' cutoff_date)
       (\<lambda>entries.
     bindE (if entries \<noteq> []
            then bindE (attr_list SleepEntry ''sleep_quality'' entries) np_mean
            else Inr 5) (\<lambda>avg_sleep_quality.
     Inr (burnout_result avg_daily_hours violations avg_sleep_quality)))))))"

subsection \<open>\<open>IntelligenceEngine.analyze_correlations\<close>\<close>

text \<open>A time series is a dictionary from a metric name to a list of values.\<close>

type_synonym timeseries = "(string \<times> val list) list"

text \<open>\<open>d[k] = d.get(k, 0) + x\<close> on a dictionary kept in insertion order.\<close>

fun dict_add :: "('k \<times> rat) list \<Rightarrow> 'k \<Rightarrow> rat \<Rightarrow> ('k \<times> rat) list" where
  "dict_add [] k x = [(k, 0 + x)]"
| "dict_add ((k', v) # kvs) k x =
     (if k' = k then (k', v + x) # kvs else (k', v) # dict_add kvs k x)"

text \<open>\<open>v.date()\<close>: the day of a datetime; any other value has no such attribute.\<close>

definition date_of :: "val \<Rightarrow> error + int" where
  "date_of v = (case v of VDateTime t \<Rightarrow> Inr (t div us_per_day)
                | _ \<Rightarrow> Inl (AttributeError ''object'' ''date''))"

fun daily_spending_loop :: "row list \<Rightarrow> (int \<times> rat) list \<Rightarrow> error + (int \<times> rat) list" where
  "daily_spending_loop [] acc = Inr acc"
| "daily_spending_loop (t # ts) acc =
     bindE (inst_attr Transaction t ''transaction_type'') (\<lambda>ty.
       if ty = VStr ''expense'' then
         bindE (inst_attr Transaction t ''date'') (\<lambda>d.
         bindE (date_of d) (\<lambda>day.
         bindE (inst_attr Transaction t ''amount'') (\<lambda>a.
         bindE (num_of a) (\<lambda>x.
           daily_spending_loop ts (dict_add acc day x)))))
       else daily_spending_loop ts acc)"

definition get_financial_timeseries :: "database \<Rightarrow> int \<Rightarrow> datetime \<Rightarrow> error + timeseries" where
  "get_financial_timeseries db uid cutoff_date =
     bindE (query_user_since_ordered Transaction (map Transaction_row (transactions db)) uid
              ''date'' cutoff_date) (\<lambda>txs.
     bindE (daily_spending_loop txs []) (\<lambda>daily_spending.
       Inr [(''daily_spending'', map (\<lambda>(_, v). VNum v) daily_spending)]))"

definition get_health_timeseries :: "database \<Rightarrow> int \<Rightarrow> datetime \<Rightarrow> error + timeseries" where
  "get_health_timeseries db uid cutoff_date =
     bindE (query_user_since_ordered SleepEntry (sleep_entries db) uid
              ''created_at'' cutoff_date) (\<lambda>sleep_data.
     bindE (query_user_since_ordered HealthExercise (exercises db) uid
              ''performed_at'' cutoff_date) (\<lambda>exercise_data.
     bindE (attr_list SleepEntry ''sleep_hours'' sleep_data) (\<lambda>hours.
     bindE (attr_list SleepEntry ''sleep_quality'' sleep_data) (\<lambda>quality.
     bindE (attr_list HealthExercise ''duration_minutes'' exercise_data) (\<lambda>minutes.
       Inr [(''sleep_hours'', hours), (''sleep_quality'', quality),
            (''exercise_minutes'', minutes)])))))"

fun daily_work_hours_loop :: "row list \<Rightarrow> (int \<times> rat) list \<Rightarrow> error + (int \<times> rat) list" where
  "daily_work_hours_loop [] acc = Inr acc"
| "daily_work_hours_loop (s # ss) acc =
     bindE (inst_attr WorkSession s ''start_time'') (\<lambda>st.
     bindE (date_of st) (\<lambda>day.
     bindE (inst_attr WorkSession s ''duration_minutes'') (\<lambda>v.
     bindE (num_of (if truthy v then v else VInt 0)) (\<lambda>x.
       daily_work_hours_loop ss (dict_add acc day (x / 60))))))"

definition get_worklife_timeseries :: "database \<Rightarrow> int \<Rightarrow> datetime \<Rightarrow> error + timeseries" where
  "get_worklife_timeseries db uid cutoff_date =
     bindE (query_user_since_ordered WorkSession (work_sessions db) uid
              ''start_time'' cutoff_date) (\<lambda>sessions.
     bindE (daily_work_hours_loop sessions []) (\<lambda>daily_work_hours.
       Inr [(''daily_work_hours'', map (\<lambda>(_, v). VNum v) daily_work_hours)]))"

definition get_productivity_timeseries ::
  "database \<Rightarrow> int \<Rightarrow> datetime \<Rightarrow> error + timeseries" where
  "get_productivity_timeseries db uid cutoff_date =
     bindE (query_user_since_ordered DeepWorkSession (deep_work_sessions db) uid
              ''start_time'' cutoff_date) (\<lambda>deep_work.
     bindE (attr_list DeepWorkSession ''focus_score'' deep_work) (\<lambda>focus.
     bindE (attr_list DeepWorkSession ''duration_minutes'' deep_work) (\<lambda>minutes.
       Inr [(''focus_scores'', focus), (''deep_work_minutes'', minutes)])))"

definition get_wellbeing_timeseries :: "database \<Rightarrow> int \<Rightarrow> datetime \<Rightarrow> error + timeseries" where
  "get_wellbeing_timeseries db uid cutoff_date =
     bindE (query_user_since_ordered MoodEntry (mood_entries db) uid
              ''created_at'' cutoff_date) (\<lambda>mood_data.
     bindE (attr_list MoodEntry ''mood_score'' mood_data) (\<lambda>moods.
     bindE (attr_list MoodEntry ''stress_level'' mood_data) (\<lambda>stress.
     bindE (attr_list MoodEntry ''energy_level'' mood_data) (\<lambda>energy.
       Inr [(''mood_scores'', moods), (''stress_levels'', stress),
            (''energy_levels'', energy)]))))"

text \<open>The five correlation helpers are placeholders.\<close>

definition correlate_spending_vs_stress :: "timeseries \<Rightarrow> timeseries \<Rightarrow> row list" where
  "correlate_spending_vs_stress financial_data wellbeing_data = []"

definition correlate_work_hours_vs_health :: "timeseries \<Rightarrow> timeseries \<Rightarrow> row list" where
  "correlate_work_hours_vs_health worklife_data health_data = []"

definition correlate_sleep_vs_productivity :: "timeseries \<Rightarrow> timeseries \<Rightarrow> row list" where
  "correlate_sleep_vs_productivity health_data productivity_data = []"

definition correlate_exercise_vs_mood :: "timeseries \<Rightarrow> timeseries \<Rightarrow> row list" where
  "correlate_exercise_vs_mood health_data wellbeing_data = []"

definition correlate_meetings_vs_focus :: "timeseries \<Rightarrow> timeseries \<Rightarrow> row list" where
  "correlate_meetings_vs_focus worklife_data productivity_data = []"

definition analyze_correlations ::
  "database \<Rightarrow> int \<Rightarrow> datetime \<Rightarrow> int \<Rightarrow> error + row list" where
  "analyze_correlations db uid utcnow days =
     bindE (datetime_minus_days utcnow days) (\<lambda>cutoff_date.
     bindE (get_financial_timeseries db uid cutoff_date) (\<lambda>financial_data.
     bindE (get_health_timeseries db uid cutoff_date) (\<lambda>health_data.
     bindE (get_worklife_timeseries db uid cutoff_date) (\<lambda>worklife_data.
     bindE (get_productivity_timeseries db uid cutoff_date) (\<lambda>productivity_data.
     bindE (get_wellbeing_timeseries db uid cutoff_date) (\<lambda>wellbeing_data.
       Inr ([] @ correlate_spending_vs_stress financial_data wellbeing_data
               @ correlate_work_hours_vs_health worklife_data health_data
               @ correlate_sleep_vs_productivity health_data productivity_data
               @ correlate_exercise_vs_mood health_data wellbeing_data
               @ correlate_meetings_vs_focus worklife_data productivity_data)))))))"

section \<open>api/endpoints/financial.py\<close>

text \<open>
  A handler receives the session's database and the authenticated user's id
  (\<open>current_user.id\<close>) and returns the database after its commit together with its
  answer; a raised \<open>HTTPException\<close> is the \<open>Inl\<close> answer. The status code of a
  normal answer is the one of the route decorator.
\<close>

subsection \<open>Transactions\<close>

text \<open>The key SQLite gives a new row: one more than the largest key in the table.\<close>

definition next_id :: "int list \<Rightarrow> int" where
  "next_id ids = fold max ids 0 + 1"

text \<open>\<open>TransactionCreate\<close> accepts a payload whose amount is positive
  (\<open>Field(..., gt=0)\<close>); the framework answers 422 otherwise and the handler is not
  called.\<close>

definition valid_transaction_create :: "transaction_base \<Rightarrow> bool" where
  "valid_transaction_create p = (0 < amount p)"

definition new_transaction :: "database \<Rightarrow> int \<Rightarrow> datetime \<Rightarrow> transaction_base \<Rightarrow> transaction" where
  "new_transaction db uid now p =
     transaction_base.extend p
       (transaction.fields (next_id (map tx_id (transactions db))) uid (Some now) None)"

definition create_transaction ::
  "database \<Rightarrow> int \<Rightarrow> datetime \<Rightarrow> transaction_base \<Rightarrow> database \<times> (error + nat \<times> transaction)" where
  "create_transaction db uid now transaction_data =
     (if \<not> valid_transaction_create transaction_data
      then (db, Inl (HTTPException 422 ''Unprocessable Entity''))
      else (let t = new_transaction db uid now transaction_data
            in (db \<lparr> transactions := transactions db @ [t] \<rparr>, Inr (201, t))))"

text \<open>\<open>OFFSET\<close> and \<open>LIMIT\<close> as SQLite (the configured database) reads them: a
  negative offset skips nothing, a negative limit keeps everything.\<close>

definition sql_offset :: "int \<Rightarrow> 'a list \<Rightarrow> 'a list" where
  "sql_offset k xs = drop (nat k) xs"

definition sql_limit :: "int \<Rightarrow> 'a list \<Rightarrow> 'a list" where
  "sql_limit k xs = (if k < 0 then xs else take (nat k) xs)"

definition opt_filter :: "'b option \<Rightarrow> ('b \<Rightarrow> 'a \<Rightarrow> bool) \<Rightarrow> 'a list \<Rightarrow> 'a list" where
  "opt_filter v P xs = (case v of None \<Rightarrow> xs | Some x \<Rightarrow> filter (P x) xs)"

definition get_transactions ::
  "database \<Rightarrow> int \<Rightarrow> int \<Rightarrow> int \<Rightarrow> TransactionType option \<Rightarrow> TransactionCategory option
   \<Rightarrow> datetime option \<Rightarrow> datetime option \<Rightarrow> rat option \<Rightarrow> rat option \<Rightarrow> transaction list" where
  "get_transactions db uid skip limit ttype cat start_date end_date min_amount max_amount =
     (let q0 = filter (\<lambda>t. tx_user_id t = uid) (transactions db);
          q1 = opt_filter ttype (\<lambda>v t. transaction_type t = v) q0;
          q2 = opt_filter cat (\<lambda>v t. category t = v) q1;
          q3 = opt_filter start_date (\<lambda>v t. v \<le> transaction_date t) q2;
          q4 = opt_filter end_date (\<lambda>v t. transaction_date t \<le> v) q3;
          q5 = opt_filter min_amount (\<lambda>v t. v \<le> amount t) q4;
          q6 = opt_filter max_amount (\<lambda>v t. amount t \<le> v) q5
      in sql_limit limit (sql_offset skip (sort_key (\<lambda>t. - transaction_date t) q6)))"

definition find_transaction :: "database \<Rightarrow> int \<Rightarrow> int \<Rightarrow> transaction option" where
  "find_transaction db uid transaction_id =
     find (\<lambda>t. tx_id t = transaction_id \<and> tx_user_id t = uid) (transactions db)"

definition not_found :: error where
  "not_found = HTTPException 404 ''Transaction not found''"

definition get_transaction ::
  "database \<Rightarrow> int \<Rightarrow> int \<Rightarrow> database \<times> (error + nat \<times> transaction)" where
  "get_transaction db uid transaction_id =
     (case find_transaction db uid transaction_id of
        None \<Rightarrow> (db, Inl not_found)
      | Some t \<Rightarrow> (db, Inr (200, t)))"

text \<open>\<open>db.delete(transaction)\<close> issues a \<open>DELETE\<close> on the primary key of the row found.\<close>

definition delete_transaction ::
  "database \<Rightarrow> int \<Rightarrow> int \<Rightarrow> database \<times> (error + nat)" where
  "delete_transaction db uid transaction_id =
     (case find_transaction db uid transaction_id of
        None \<Rightarrow> (db, Inl not_found)
      | Some t \<Rightarrow>
          (db \<lparr> transactions := filter (\<lambda>r. tx_id r \<noteq> tx_id t) (transactions db) \<rparr>,
           Inr 204))"

subsection \<open>Dashboard\<close>

record dashboard =
  dash_current_balance :: rat
  net_worth :: rat
  current_month_income :: rat
  current_month_expenses :: rat
  current_month_net :: rat
  current_month_savings_rate :: rat
  last_month_income :: rat
  last_month_expenses :: rat
  last_month_net :: rat
  income_change_percent :: rat
  expense_change_percent :: rat
  spending_by_category :: "(string \<times> rat) list"
  investments_total_value :: rat
  investments_count :: nat
  debts_total_balance :: rat
  debts_count :: nat
  financial_health_score :: rat

definition total_of :: "TransactionType \<Rightarrow> transaction list \<Rightarrow> rat" where
  "total_of ty ts = sum_list (map amount (filter (\<lambda>t. transaction_type t = ty) ts))"

definition category_spending_of :: "transaction list \<Rightarrow> (string \<times> rat) list" where
  "category_spending_of ts =
     fold (\<lambda>t acc. if transaction_type t = EXPENSE
                    then dict_add acc (category_value (category t)) (amount t) else acc)
          ts []"

definition investment_worth :: "investment \<Rightarrow> rat" where
  "investment_worth i =
     quantity i * (if truthy_num (current_price i) then the (current_price i)
                   else purchase_price i)"

definition active_debts :: "database \<Rightarrow> int \<Rightarrow> debt list" where
  "active_debts db uid = filter (\<lambda>d. debt_user_id d = uid \<and> is_active d = Some 1) (debts db)"

definition health_score_formula :: "rat \<Rightarrow> rat \<Rightarrow> rat \<Rightarrow> rat" where
  "health_score_formula savings_rate investment_value total_debt =
     min 100 (max 0
       (savings_rate * (4 / 10)
        + min 100 ((investment_value / 10000) * 10) * (3 / 10)
        + max 0 (100 - total_debt / 1000) * (3 / 10)))"

definition get_financial_dashboard :: "database \<Rightarrow> int \<Rightarrow> datetime \<Rightarrow> error + dashboard" where
  "get_financial_dashboard db uid now =
     (case year_month now of (y, m) \<Rightarrow>
      let current_month_start = datetime_ymd y m 1 in
      bindE (datetime_minus_days current_month_start 1) (\<lambda>prev.
      let last_month_start = (case year_month prev of (py, pm) \<Rightarrow> datetime_ymd py pm 1);
          mine = filter (\<lambda>t. tx_user_id t = uid) (transactions db);
          current_month_transactions =
            filter (\<lambda>t. tx_user_id t = uid \<and> current_month_start \<le> transaction_date t)
              (transactions db);
          last_month_transactions =
            filter (\<lambda>t. tx_user_id t = uid \<and> last_month_start \<le> transaction_date t
                        \<and> transaction_date t < current_month_start) (transactions db);
          current_income = total_of INCOME current_month_transactions;
          current_expenses = total_of EXPENSE current_month_transactions;
          last_income = total_of INCOME last_month_transactions;
          last_expenses = total_of EXPENSE last_month_transactions;
          category_spending = category_spending_of current_month_transactions;
          total_income_all_time = total_of INCOME mine;
          total_expenses_all_time = total_of EXPENSE mine;
          invs = filter (\<lambda>i. inv_user_id i = uid) (investments db);
          investment_value = sum_list (map investment_worth invs);
          ds = active_debts db uid;
          total_debt = sum_list (map current_balance ds);
          net = (total_income_all_time - total_expenses_all_time) + investment_value - total_debt;
          income_change =
            (if 0 < last_income then (current_income - last_income) / last_income * 100 else 0);
          expense_change =
            (if 0 < last_expenses
             then (current_expenses - last_expenses) / last_expenses * 100 else 0);
          savings_rate =
            (if 0 < current_income
             then (current_income - current_expenses) / current_income * 100 else 0);
          health = health_score_formula savings_rate investment_value total_debt
      in Inr \<lparr> dash_current_balance = current_income - current_expenses,
               net_worth = py_round2 net,
               current_month_income = py_round2 current_income,
               current_month_expenses = py_round2 current_expenses,
               current_month_net = py_round2 (current_income - current_expenses),
               current_month_savings_rate = py_round2 savings_rate,
               last_month_income = py_round2 last_income,
               last_month_expenses = py_round2 last_expenses,
               last_month_net = py_round2 (last_income - last_expenses),
               income_change_percent = py_round2 income_change,
               expense_change_percent = py_round2 expense_change,
               spending_by_category =
                 map (\<lambda>(k, v). (k, py_round2 v)) (sort_key (\<lambda>(k, v). - v) category_spending),
               investments_total_value = py_round2 investment_value,
               investments_count = length invs,
               debts_total_balance = py_round2 total_debt,
               debts_count = length ds,
               financial_health_score = py_round2 health \<rparr>))"

subsection \<open>Debt payoff strategy\<close>

text \<open>
  One entry of \<open>debt_data\<close>. The entries are dictionaries shared between
  \<open>debt_data\<close> and \<open>remaining_debts\<close>; only their balance is ever written, and
  \<open>debt_data\<close> is read afterwards for the names alone, so the loop is modelled on the
  list \<open>remaining_debts\<close>.
\<close>

record debt_entry =
  entry_id :: int
  entry_name :: string
  balance :: rat
  entry_interest_rate :: rat
  entry_minimum_payment :: rat

definition debt_entry_of :: "debt \<Rightarrow> debt_entry" where
  "debt_entry_of d =
     \<lparr> entry_id = debt_id d, entry_name = debt_name d, balance = current_balance d,
       entry_interest_rate = interest_rate d, entry_minimum_payment = minimum_payment d \<rparr>"

text \<open>\<open>list.sort\<close> is stable, also with \<open>reverse=True\<close>.\<close>

definition sort_debts :: "string \<Rightarrow> debt_entry list \<Rightarrow> debt_entry list" where
  "sort_debts strategy ds =
     (if strategy = ''avalanche'' then sort_key (\<lambda>d. - entry_interest_rate d) ds
      else sort_key balance ds)"

record payoff_state =
  remaining_debts :: "debt_entry list"
  current_month :: nat
  total_interest_paid :: rat
  timeline :: "(nat \<times> string \<times> string) list"

text \<open>The \<open>for\<close> loop paying the minimum on every debt: the debts after the payment,
  the interest accrued and the payment left.\<close>

fun pay_minimums :: "debt_entry list \<Rightarrow> rat \<Rightarrow> rat \<Rightarrow> debt_entry list \<times> rat \<times> rat" where
  "pay_minimums [] interest available = ([], interest, available)"
| "pay_minimums (d # ds) interest available =
     (let payment = min (entry_minimum_payment d) (balance d);
          monthly_interest = (balance d * (entry_interest_rate d / 100)) / 12;
          principal_payment = payment - monthly_interest;
          d' = d \<lparr> balance := balance d - principal_payment \<rparr>
      in case pay_minimums ds (interest + monthly_interest) (available - payment) of
           (ds', interest', available') \<Rightarrow> (d' # ds', interest', available'))"

definition pay_extra :: "rat \<Rightarrow> debt_entry list \<Rightarrow> debt_entry list" where
  "pay_extra available ds =
     (case ds of
        [] \<Rightarrow> []
      | first_debt # rest \<Rightarrow>
          (if 0 < available
           then first_debt \<lparr> balance := balance first_debt - min available (balance first_debt) \<rparr>
                # rest
           else ds))"

text \<open>One pass of the \<open>while\<close> body; \<open>date_after k\<close> is the formatted date
  \<open>k\<close> months from now (\<open>datetime.now() + relativedelta(months=k)\<close>).\<close>

definition month_step :: "rat \<Rightarrow> (nat \<Rightarrow> string) \<Rightarrow> payoff_state \<Rightarrow> payoff_state" where
  "month_step monthly_payment date_after s =
     (let month = current_month s + 1
      in case pay_minimums (remaining_debts s) (total_interest_paid s) monthly_payment of
           (ds, interest, available) \<Rightarrow>
             (let ds' = pay_extra available ds;
                  newly_paid = filter (\<lambda>d. balance d \<le> 0) ds'
              in \<lparr> remaining_debts = filter (\<lambda>d. 0 < balance d) ds',
                   current_month = month,
                   total_interest_paid = interest,
                   timeline = timeline s
                     @ map (\<lambda>d. (month, entry_name d, date_after month)) newly_paid \<rparr>))"

function payoff_loop :: "rat \<Rightarrow> (nat \<Rightarrow> string) \<Rightarrow> payoff_state \<Rightarrow> payoff_state" where
  "payoff_loop monthly_payment date_after s =
     (if remaining_debts s \<noteq> [] \<and> current_month s < 360
      then payoff_loop monthly_payment date_after (month_step monthly_payment date_after s)
      else s)"
  by pat_completeness auto

termination
proof (relation "measure (\<lambda>(_, _, s). 360 - current_month s)")
  show "wf (measure (\<lambda>(_, _, s). 360 - current_month s))" by simp
next
  fix monthly_payment :: rat and date_after :: "nat \<Rightarrow> string" and s :: payoff_state
  assume "remaining_debts s \<noteq> [] \<and> current_month s < 360"
  moreover have "current_month (month_step monthly_payment date_after s) = current_month s + 1"
    by (simp add: month_step_def Let_def split: prod.split)
  ultimately show "((monthly_payment, date_after, month_step monthly_payment date_after s),
                    (monthly_payment, date_after, s))
                   \<in> measure (\<lambda>(_, _, s). 360 - current_month s)"
    by auto
qed

declare payoff_loop.simps [simp del]

datatype payoff_response =
    NoActiveDebts
  | Payoff (strategy_used: string) (monthly_payment_used: rat) (total_months: "nat option")
      (payoff_date: string) (interest_paid: rat) (events: "(nat \<times> string \<times> string) list")
      (payment_order: "string list")

definition initial_payoff_state :: "debt_entry list \<Rightarrow> payoff_state" where
  "initial_payoff_state debt_data =
     \<lparr> remaining_debts = debt_data, current_month = 0, total_interest_paid = 0, timeline = [] \<rparr>"

definition calculate_debt_payoff_strategy ::
  "database \<Rightarrow> int \<Rightarrow> (nat \<Rightarrow> string) \<Rightarrow> rat \<Rightarrow> string \<Rightarrow> payoff_response" where
  "calculate_debt_payoff_strategy db uid date_after monthly_payment strategy =
     (let ds = active_debts db uid
      in if ds = [] then NoActiveDebts
         else (let debt_data = sort_debts strategy (map debt_entry_of ds);
                   final = payoff_loop monthly_payment date_after (initial_payoff_state debt_data);
                   months = (if remaining_debts final = [] then Some (current_month final)
                             else None)
               in Payoff strategy monthly_payment months
                    (case months of
                       None \<Rightarrow> ''Unable to calculate''
                     | Some k \<Rightarrow> (if k \<noteq> 0 then date_after k else ''Unable to calculate''))
                    (py_round2 (total_interest_paid final))
                    (timeline final)
                    (map entry_name debt_data)))"

section \<open>services/notification\_service.py\<close>

text \<open>
  The service acts on the database and on the console: \<open>print\<close> appends a line to
  the output. Nothing else leaves the process.
\<close>

definition truthy_bool :: "bool option \<Rightarrow> bool" where
  "truthy_bool b = (b = Some True)"

text \<open>\<open>_is_notification_enabled\<close>; for the category \<open>alert\<close> the function returns
  \<open>alert_critical_enabled or alert_high_enabled\<close>, which its caller reads through
  \<open>not\<close>, so the truth value of that expression is what is modelled.\<close>

definition is_notification_enabled :: "user_preferences option \<Rightarrow> string \<Rightarrow> string \<Rightarrow> bool" where
  "is_notification_enabled prefs ntype cat =
     (case prefs of
        None \<Rightarrow> True
      | Some p \<Rightarrow>
          if ntype = ''email'' \<and> \<not> truthy_bool (enable_email_notifications p) then False
          else if ntype = ''push'' \<and> \<not> truthy_bool (enable_push_notifications p) then False
          else if cat = ''briefing'' \<and> \<not> truthy_bool (daily_briefing_enabled p) then False
          else if cat = ''alert''
            then truthy_bool (alert_critical_enabled p) \<or> truthy_bool (alert_high_enabled p)
          else True)"

definition truthy_str :: "string option \<Rightarrow> bool" where
  "truthy_str v = (case v of None \<Rightarrow> False | Some x \<Rightarrow> x \<noteq> [])"

definition send_email_notification ::
  "database \<Rightarrow> int \<Rightarrow> string \<Rightarrow> string \<Rightarrow> string option \<Rightarrow> string list" where
  "send_email_notification db uid ttl msg email_address =
     (let address =
            (if truthy_str email_address then email_address
             else (case find (\<lambda>u. user_id u = uid) (users db) of
                     None \<Rightarrow> None
                   | Some u \<Rightarrow> Some (email u)))
      in if \<not> truthy_str address then []
         else [''[EMAIL] To: '' @ the address @ '', Subject: '' @ ttl @ '', Body: '' @ msg])"

text \<open>The push message names the user by the decimal form of the id, here \<open>show_id\<close>.\<close>

definition send_push_notification ::
  "(int \<Rightarrow> string) \<Rightarrow> int \<Rightarrow> string \<Rightarrow> string \<Rightarrow> string option \<Rightarrow> string list" where
  "send_push_notification show_id uid ttl msg device_token =
     [''[PUSH] To User '' @ show_id uid @ '', Title: '' @ ttl @ '', Message: '' @ msg]"

definition create_notification_log ::
  "database \<Rightarrow> datetime \<Rightarrow> int \<Rightarrow> string \<Rightarrow> string \<Rightarrow> string \<Rightarrow> string \<Rightarrow> string
   \<Rightarrow> string option \<Rightarrow> string option \<Rightarrow> database \<times> notification_log" where
  "create_notification_log db now uid ntype cat ttl msg st delivery extra =
     (let entry = \<lparr> nl_id = next_id (map nl_id (notification_logs db)), nl_user_id = uid,
                   notification_type = ntype, nl_category = cat, title = ttl, message = msg,
                   status = st, delivery_method = delivery, sent_at = Some now,
                   delivered_at = None, read_at = None, extra_data = extra \<rparr>
      in (db \<lparr> notification_logs := notification_logs db @ [entry] \<rparr>, entry))"

text \<open>\<open>send_notification\<close>: the database after the call, the lines printed, and the
  log row returned.\<close>

definition send_notification ::
  "database \<Rightarrow> (int \<Rightarrow> string) \<Rightarrow> datetime \<Rightarrow> int \<Rightarrow> string \<Rightarrow> string \<Rightarrow> string \<Rightarrow> string
   \<Rightarrow> string option \<Rightarrow> string option \<Rightarrow> database \<times> string list \<times> notification_log" where
  "send_notification db show_id now uid ntype cat ttl msg delivery extra =
     (let prefs = find (\<lambda>p. pref_user_id p = uid) (preferences db)
      in if \<not> is_notification_enabled prefs ntype cat
         then (case create_notification_log db now uid ntype cat ttl msg ''skipped'' delivery extra
               of (db', entry) \<Rightarrow> (db', [], entry))
         else (let printed =
                     (if ntype = ''email'' then send_email_notification db uid ttl msg delivery
                      else if ntype = ''push''
                        then send_push_notification show_id uid ttl msg delivery
                      else [])
               in case create_notification_log db now uid ntype cat ttl msg ''sent'' delivery extra
                  of (db', entry) \<Rightarrow> (db', printed, entry)))"

text \<open>\<open>mark_notification_read\<close>: the first row with the id and the user is loaded;
  if there is one its \<open>read_at\<close> and \<open>status\<close> are set and the row is written back
  in place.\<close>

fun update_first :: "('a \<Rightarrow> bool) \<Rightarrow> ('a \<Rightarrow> 'a) \<Rightarrow> 'a list \<Rightarrow> 'a list" where
  "update_first P g [] = []"
| "update_first P g (x # xs) = (if P x then g x # xs else x # update_first P g xs)"

definition mark_notification_read ::
  "database \<Rightarrow> datetime \<Rightarrow> int \<Rightarrow> int \<Rightarrow> database \<times> notification_log option" where
  "mark_notification_read db now notification_id uid =
     (let wanted = (\<lambda>n. nl_id n = notification_id \<and> nl_user_id n = uid);
          mark = (\<lambda>n. n \<lparr> read_at := Some now, status := ''read'' \<rparr>)
      in case find wanted (notification_logs db) of
           None \<Rightarrow> (db, None)
         | Some n \<Rightarrow>
             (db \<lparr> notification_logs := update_first wanted mark (notification_logs db) \<rparr>,
              Some (mark n)))"

section \<open>Sample data\<close>

definition empty_database :: database where
  "empty_database =
     \<lparr> users = [], transactions = [], investments = [], debts = [], preferences = [],
       notification_logs = [], work_sessions = [], boundary_violations = [], sleep_entries = [],
       mood_entries = [], exercises = [], deep_work_sessions = [] \<rparr>"

text \<open>2024-03-15 12:00:00 and 2024-03-10 09:00:00.\<close>

definition sample_now :: datetime where
  "sample_now = 738959 * 86400000000 + 43200000000"

definition sample_earlier :: datetime where
  "sample_earlier = 738954 * 86400000000 + 32400000000"

definition sample_work_session :: row where
  "sample_work_session =
     [(''id'', VInt 1), (''user_id'', VInt 1), (''start_time'', VDateTime sample_earlier),
      (''end_time'', VDateTime (sample_earlier + 28800000000)), (''duration_hours'', VNum 8)]"

definition sample_payload :: transaction_base where
  "sample_payload =
     \<lparr> transaction_type = EXPENSE, category = FOOD, amount = 25 / 2,
       description = Some ''lunch'', transaction_date = sample_earlier,
       merchant = None, tags = None \<rparr>"

definition sample_transaction :: "int \<Rightarrow> int \<Rightarrow> transaction" where
  "sample_transaction i uid =
     transaction_base.extend sample_payload (transaction.fields i uid (Some sample_earlier) None)"

definition one_user_database :: database where
  "one_user_database = empty_database \<lparr> transactions := [sample_transaction 1 1] \<rparr>"

definition two_user_database :: database where
  "two_user_database =
     empty_database \<lparr> transactions := [sample_transaction 2 2, sample_transaction 1 1,
                                        sample_transaction 3 2] \<rparr>"

definition sample_debt :: "rat \<Rightarrow> rat \<Rightarrow> rat \<Rightarrow> debt" where
  "sample_debt bal rate minimum =
     \<lparr> debt_id = 1, debt_user_id = 1, debt_name = ''card'', original_amount = bal,
       current_balance = bal, interest_rate = rate, minimum_payment = minimum,
       is_active = Some 1 \<rparr>"

definition sample_date_after :: "nat \<Rightarrow> string" where
  "sample_date_after k = ''later''"

text \<open>A debt of 1000 at 12 percent with a minimum payment of 100, and a debt of 1000
  that is never paid.\<close>

definition paying_database :: database where
  "paying_database = empty_database \<lparr> debts := [sample_debt 1000 12 100] \<rparr>"

definition stuck_database :: database where
  "stuck_database = empty_database \<lparr> debts := [sample_debt 1000 0 0] \<rparr>"

definition sample_preferences :: user_preferences where
  "sample_preferences =
     \<lparr> pref_id = 1, pref_user_id = 1, enable_email_notifications = Some False,
       enable_push_notifications = Some True, daily_briefing_enabled = Some True,
       alert_critical_enabled = Some True, alert_high_enabled = Some True,
       alert_medium_enabled = Some False \<rparr>"

definition sample_log :: "int \<Rightarrow> int \<Rightarrow> notification_log" where
  "sample_log i uid =
     \<lparr> nl_id = i, nl_user_id = uid, notification_type = ''in_app'', nl_category = ''reminder'',
       title = ''Stretch'', message = ''Stand up'', status = ''sent'', delivery_method = None,
       sent_at = Some sample_earlier, delivered_at = None, read_at = None, extra_data = None \<rparr>"

definition notified_database :: database where
  "notified_database =
     empty_database \<lparr> preferences := [sample_preferences],
                      notification_logs := [sample_log 1 2, sample_log 2 1] \<rparr>"

definition sample_show_id :: "int \<Rightarrow> string" where
  "sample_show_id i = ''1''"

section \<open>Theorems\<close>

subsection \<open>Rounding keeps integer bounds\<close>

lemma round_half_even_ge: "of_int k \<le> q \<Longrightarrow> k \<le> round_half_even q"
proof -
  assume "of_int k \<le> q"
  then have "k \<le> \<lfloor>q\<rfloor>" by (simp add: le_floor_iff)
  then show ?thesis unfolding round_half_even_def Let_def by auto
qed

lemma round_half_even_le: "q \<le> of_int k \<Longrightarrow> round_half_even q \<le> k"
proof -
  assume h: "q \<le> of_int k"
  have fl: "\<lfloor>q\<rfloor> \<le> k" using floor_mono [OF h] by simp
  show ?thesis
  proof (cases "\<lfloor>q\<rfloor> = k")
    case True
    then have "q - of_int \<lfloor>q\<rfloor> \<le> 0" using h by simp
    then show ?thesis using True unfolding round_half_even_def Let_def by auto
  next
    case False
    then have "\<lfloor>q\<rfloor> + 1 \<le> k" using fl by simp
    then show ?thesis using fl unfolding round_half_even_def Let_def by auto
  qed
qed

lemma py_round2_bounds:
  assumes "of_int lo \<le> x" "x \<le> of_int hi"
  shows "of_int lo \<le> py_round2 x \<and> py_round2 x \<le> of_int hi"
proof -
  have "of_int (lo * 100) \<le> x * 100" "x * 100 \<le> of_int (hi * 100)"
    using assms by simp_all
  then have "lo * 100 \<le> round_half_even (x * 100)" "round_half_even (x * 100) \<le> hi * 100"
    by (simp_all only: round_half_even_ge round_half_even_le)
  then have "(of_int (lo * 100) :: rat) \<le> of_int (round_half_even (x * 100))"
            "(of_int (round_half_even (x * 100)) :: rat) \<le> of_int (hi * 100)"
    by (simp_all only: of_int_le_iff)
  then show ?thesis by (simp add: py_round2_def field_simps)
qed

subsection \<open>The health score stays within 0 and 100\<close>

lemma bmi_points_bounds: "0 \<le> bmi_points b \<and> bmi_points b \<le> 20"
  by (simp add: bmi_points_def Let_def)

lemma sleep_points_bounds: "0 \<le> sleep_points s \<and> sleep_points s \<le> 20"
  by (simp add: sleep_points_def Let_def)

lemma exercise_points_bounds: "0 \<le> exercise_points d \<and> exercise_points d \<le> 25"
  by (simp add: exercise_points_def split: option.split)

lemma vitals_points_bounds:
  "0 \<le> 0 + bp_points p + hr_points h \<and> 0 + bp_points p + hr_points h \<le> 15"
  by (simp add: bp_points_def hr_points_def Let_def)

lemma nutrition_points_bounds:
  assumes "\<And>n. nutrition_score = Some n \<Longrightarrow> 0 \<le> n \<and> n \<le> 100"
  shows "0 \<le> nutrition_points nutrition_score \<and> nutrition_points nutrition_score \<le> 20"
  using assms by (cases nutrition_score) (auto simp: nutrition_points_def)

lemma calculate_health_score_max: "max_score (calculate_health_score b s d n p h) = 100"
  by (simp add: calculate_health_score_def Let_def)

lemma calculate_health_score_bounds:
  assumes "\<And>x. n = Some x \<Longrightarrow> 0 \<le> x \<and> x \<le> 100"
  shows "0 \<le> overall_score (calculate_health_score b s d n p h)
         \<and> overall_score (calculate_health_score b s d n p h)
             \<le> max_score (calculate_health_score b s d n p h)
         \<and> max_score (calculate_health_score b s d n p h) = 100"
proof -
  let ?np = "py_round2 (nutrition_points n)"
  let ?vp = "py_round2 (0 + bp_points p + hr_points h)"
  have np: "of_int 0 \<le> ?np \<and> ?np \<le> of_int 20"
    using nutrition_points_bounds [OF assms] by (intro py_round2_bounds) simp_all
  have vp: "of_int 0 \<le> ?vp \<and> ?vp \<le> of_int 15"
    using vitals_points_bounds [of p h] by (intro py_round2_bounds) simp_all
  let ?t = "bmi_points b + (sleep_points s + (exercise_points d + (?np + ?vp)))"
  have t: "of_int 0 \<le> ?t \<and> ?t \<le> of_int 100"
    using bmi_points_bounds [of b] sleep_points_bounds [of s] exercise_points_bounds [of d] np vp
    by simp
  have "of_int 0 \<le> py_round2 ?t \<and> py_round2 ?t \<le> of_int 100"
    using t by (intro py_round2_bounds) simp_all
  then show ?thesis by (simp add: calculate_health_score_def Let_def)
qed


subsection \<open>The burnout risk score\<close>

lemma burnout_risk_score_bounds:
  assumes "0 \<le> violations" "0 \<le> avg_sleep_quality"
  shows "0 \<le> burnout_risk_score avg_daily_hours violations avg_sleep_quality
         \<and> burnout_risk_score avg_daily_hours violations avg_sleep_quality \<le> 100"
  using assms unfolding burnout_risk_score_def by (auto simp: min_def max_def)

lemma burnout_result_current_value:
  "current_value (burnout_result h v q) = burnout_risk_score h v q"
  by (simp add: burnout_result_def Let_def)

lemma work_minutes_attribute_error:
  "sum_attr_or_0 WorkSession ''duration_minutes'' (r # rs)
   = Inl (AttributeError ''WorkSession'' ''duration_minutes'')"
  by (simp add: inst_attr_def WorkSession_def bindE_def)

lemma boundary_violation_attribute_error:
  "query_user_since BoundaryViolation rows uid ''occurred_at'' cutoff
   = Inl (AttributeError ''BoundaryViolation'' ''user_id'')"
  by (simp add: query_user_since_def class_attr_def BoundaryViolation_def bindE_def)

lemma predict_burnout_risk_never_returns: "predict_burnout_risk db uid utcnow \<noteq> Inr r"
proof (cases "datetime_minus_days utcnow 30")
  case (Inl e)
  then show ?thesis by (simp add: predict_burnout_risk_def bindE_def)
next
  case (Inr cutoff)
  have q: "\<exists>ss. query_user_since WorkSession (work_sessions db) uid ''start_time'' cutoff = Inr ss"
    by (simp add: query_user_since_def class_attr_def WorkSession_def bindE_def)
  then obtain ss
    where ss: "query_user_since WorkSession (work_sessions db) uid ''start_time'' cutoff = Inr ss"
    by blast
  show ?thesis
  proof (cases ss)
    case Nil
    then show ?thesis
      using Inr ss boundary_violation_attribute_error
      by (simp add: predict_burnout_risk_def bindE_def)
  next
    case (Cons r rs)
    then show ?thesis
      using Inr ss work_minutes_attribute_error
      by (simp add: predict_burnout_risk_def bindE_def)
  qed
qed

subsection \<open>The financial health score of the dashboard\<close>

lemma health_score_formula_bounds:
  "0 \<le> health_score_formula s i d \<and> health_score_formula s i d \<le> 100"
  by (simp add: health_score_formula_def)

lemma financial_health_score_bounds:
  assumes "get_financial_dashboard db uid now = Inr d"
  shows "0 \<le> financial_health_score d \<and> financial_health_score d \<le> 100"
proof -
  have b: "\<And>s i t. of_int 0 \<le> py_round2 (health_score_formula s i t)
                   \<and> py_round2 (health_score_formula s i t) \<le> of_int 100"
    using health_score_formula_bounds by (intro py_round2_bounds) simp_all
  show ?thesis
    using assms b
    by (auto simp: get_financial_dashboard_def bindE_def Let_def split: prod.splits sum.splits)
qed

text \<open>
  C1. Every wellbeing score is bounded to 0-100. The health score and the dashboard's
  financial health score are (\<open>calculate_health_score_bounds\<close>,
  \<open>financial_health_score_bounds\<close>), and so is the arithmetic of the burnout risk
  (\<open>burnout_risk_score_bounds\<close>); but \<open>predict_burnout_risk\<close> itself returns no score:
  with a recent work session it fails reading \<open>duration_minutes\<close>, which
  \<open>WorkSession\<close> does not declare (it declares \<open>duration_hours\<close>), and otherwise it
  fails on \<open>BoundaryViolation.user_id\<close>, which that class does not declare either.
\<close>

theorem predict_burnout_risk_attribute_error:
  "predict_burnout_risk (empty_database \<lparr> work_sessions := [sample_work_session] \<rparr>) 1 sample_now
     = Inl (AttributeError ''WorkSession'' ''duration_minutes'')
   \<and> predict_burnout_risk empty_database 1 sample_now
     = Inl (AttributeError ''BoundaryViolation'' ''user_id'')"
  by (simp add: predict_burnout_risk_def empty_database_def sample_work_session_def
        sample_now_def sample_earlier_def datetime_minus_days_def us_per_day_def
        datetime_max_def bindE_def query_user_since_def class_attr_def inst_attr_def dt_of_def
        WorkSession_def BoundaryViolation_def)

subsection \<open>Correlation analysis\<close>

lemma correlate_helpers_empty:
  "correlate_spending_vs_stress a b = [] \<and> correlate_work_hours_vs_health a b = []
   \<and> correlate_sleep_vs_productivity a b = [] \<and> correlate_exercise_vs_mood a b = []
   \<and> correlate_meetings_vs_focus a b = []"
  by (simp add: correlate_spending_vs_stress_def correlate_work_hours_vs_health_def
        correlate_sleep_vs_productivity_def correlate_exercise_vs_mood_def
        correlate_meetings_vs_focus_def)

lemma get_financial_timeseries_attribute_error:
  "get_financial_timeseries db uid cutoff = Inl (AttributeError ''Transaction'' ''date'')"
  by (simp add: get_financial_timeseries_def query_user_since_ordered_def query_user_since_def
        class_attr_def Transaction_def bindE_def)

lemma analyze_correlations_never_returns: "analyze_correlations db uid utcnow days \<noteq> Inr cs"
  by (cases "datetime_minus_days utcnow days")
     (simp_all add: analyze_correlations_def bindE_def get_financial_timeseries_attribute_error)

text \<open>
  C6. Correlation analysis is a stub returning the empty list. The five
  \<open>_correlate_*\<close> helpers do return the empty list (\<open>correlate_helpers_empty\<close>), but
  \<open>analyze_correlations\<close> never reaches them: \<open>_get_financial_timeseries\<close> filters on
  \<open>Transaction.date\<close>, an attribute the class does not declare (its column is
  \<open>transaction_date\<close>), so the call ends in \<open>AttributeError\<close>; a \<open>days\<close> argument
  outside the range of \<open>timedelta\<close> ends in \<open>OverflowError\<close> before that.
\<close>

theorem analyze_correlations_attribute_error:
  "analyze_correlations empty_database 1 sample_now 90
     = Inl (AttributeError ''Transaction'' ''date'')
   \<and> analyze_correlations empty_database 1 sample_now 1000000000 = Inl OverflowError"
  by (simp add: analyze_correlations_def get_financial_timeseries_attribute_error
        sample_now_def datetime_minus_days_def us_per_day_def datetime_max_def bindE_def)

subsection \<open>Transactions\<close>

lemma find_transaction_None:
  "find_transaction db uid tid = None
   \<longleftrightarrow> \<not> (\<exists>t \<in> set (transactions db). tx_id t = tid \<and> tx_user_id t = uid)"
  by (auto simp: find_transaction_def find_None_iff)

text \<open>
  C3. For every authenticated user and every valid payload, \<open>create_transaction\<close>
  answers 201 and the row it appends to the table carries the user's id and every field
  of the payload.
\<close>

theorem create_transaction_persists:
  assumes "valid_transaction_create p"
  shows "\<exists>t. create_transaction db uid now p
               = (db \<lparr> transactions := transactions db @ [t] \<rparr>, Inr (201, t))
             \<and> tx_user_id t = uid
             \<and> transaction_type t = transaction_type p \<and> category t = category p
             \<and> amount t = amount p \<and> description t = description p
             \<and> transaction_date t = transaction_date p \<and> merchant t = merchant p
             \<and> tags t = tags p"
  using assms
  by (simp add: create_transaction_def new_transaction_def Let_def
        transaction_base.extend_def transaction.fields_def transaction_base.defs transaction.defs)

theorem create_transaction_persists_witness:
  "valid_transaction_create sample_payload
   \<and> (\<exists>t. create_transaction empty_database 1 sample_now sample_payload
            = (empty_database \<lparr> transactions := transactions empty_database @ [t] \<rparr>,
               Inr (201, t))
          \<and> tx_user_id t = 1
          \<and> transaction_type t = EXPENSE \<and> category t = FOOD \<and> amount t = 25 / 2
          \<and> description t = Some ''lunch'' \<and> transaction_date t = sample_earlier
          \<and> merchant t = None \<and> tags t = None)"
proof -
  have v: "valid_transaction_create sample_payload"
    by (simp add: valid_transaction_create_def sample_payload_def)
  from create_transaction_persists [OF v, of empty_database 1 sample_now] v
  show ?thesis by (simp add: sample_payload_def)
qed

text \<open>
  C4. \<open>get_transaction\<close> and \<open>delete_transaction\<close> raise 404 exactly when the table
  holds no transaction with the given id that belongs to the current user; 404 is the
  only error they raise, and when they raise it the database is unchanged.
\<close>

theorem transaction_not_found_iff:
  "(snd (get_transaction db uid tid) = Inl (HTTPException 404 ''Transaction not found'')
      \<longleftrightarrow> \<not> (\<exists>t \<in> set (transactions db). tx_id t = tid \<and> tx_user_id t = uid))
   \<and> (snd (delete_transaction db uid tid) = Inl (HTTPException 404 ''Transaction not found'')
      \<longleftrightarrow> \<not> (\<exists>t \<in> set (transactions db). tx_id t = tid \<and> tx_user_id t = uid))
   \<and> (\<forall>e. snd (get_transaction db uid tid) = Inl e
          \<longrightarrow> e = HTTPException 404 ''Transaction not found''
              \<and> fst (get_transaction db uid tid) = db)
   \<and> (\<forall>e. snd (delete_transaction db uid tid) = Inl e
          \<longrightarrow> e = HTTPException 404 ''Transaction not found''
              \<and> fst (delete_transaction db uid tid) = db)"
  using find_transaction_None [of db uid tid]
  by (auto simp: get_transaction_def delete_transaction_def not_found_def split: option.splits)

theorem transaction_not_found_iff_witness:
  "\<not> (\<exists>t \<in> set (transactions two_user_database). tx_id t = 2 \<and> tx_user_id t = 1)
   \<and> (\<exists>t \<in> set (transactions two_user_database). tx_id t = 1 \<and> tx_user_id t = 1)
   \<and> snd (get_transaction two_user_database 1 2)
       = Inl (HTTPException 404 ''Transaction not found'')
   \<and> snd (delete_transaction two_user_database 1 2)
       = Inl (HTTPException 404 ''Transaction not found'')
   \<and> fst (delete_transaction two_user_database 1 2) = two_user_database
   \<and> snd (get_transaction two_user_database 1 1)
       \<noteq> Inl (HTTPException 404 ''Transaction not found'')
   \<and> snd (delete_transaction two_user_database 1 1)
       \<noteq> Inl (HTTPException 404 ''Transaction not found'')"
proof -
  have a: "\<not> (\<exists>t \<in> set (transactions two_user_database). tx_id t = 2 \<and> tx_user_id t = 1)"
    by (simp add: two_user_database_def empty_database_def sample_transaction_def
          transaction_base.extend_def transaction.fields_def transaction_base.defs
          transaction.defs sample_payload_def)
  have b: "\<exists>t \<in> set (transactions two_user_database). tx_id t = 1 \<and> tx_user_id t = 1"
    by (simp add: two_user_database_def empty_database_def sample_transaction_def
          transaction_base.extend_def transaction.fields_def transaction_base.defs
          transaction.defs sample_payload_def)
  from a b transaction_not_found_iff [of two_user_database 1 2]
       transaction_not_found_iff [of two_user_database 1 1]
  show ?thesis by blast
qed

lemma filter_scoped: "filter (\<lambda>t. U t \<and> P t) xs = filter P (filter U xs)"
  by simp

text \<open>
  C5. User-scoped noninterference: two databases that hold the same rows of the current
  user, in the same order, in the tables the two read endpoints query give the same
  answer to \<open>get_transactions\<close> and to \<open>get_financial_dashboard\<close>, whatever the rows
  of other users.
\<close>

theorem user_scoped_noninterference:
  assumes t: "filter (\<lambda>t. tx_user_id t = uid) (transactions db1)
              = filter (\<lambda>t. tx_user_id t = uid) (transactions db2)"
      and i: "filter (\<lambda>i. inv_user_id i = uid) (investments db1)
              = filter (\<lambda>i. inv_user_id i = uid) (investments db2)"
      and d: "filter (\<lambda>d. debt_user_id d = uid) (debts db1)
              = filter (\<lambda>d. debt_user_id d = uid) (debts db2)"
  shows "get_transactions db1 uid skip limit ttype cat start_date end_date min_amount max_amount
         = get_transactions db2 uid skip limit ttype cat start_date end_date min_amount max_amount
         \<and> get_financial_dashboard db1 uid now = get_financial_dashboard db2 uid now"
proof
  show "get_transactions db1 uid skip limit ttype cat start_date end_date min_amount max_amount
        = get_transactions db2 uid skip limit ttype cat start_date end_date min_amount max_amount"
    unfolding get_transactions_def t ..
next
  have tq: "\<And>P. filter (\<lambda>t. tx_user_id t = uid \<and> P t) (transactions db1)
              = filter (\<lambda>t. tx_user_id t = uid \<and> P t) (transactions db2)"
    unfolding filter_scoped t ..
  have dq: "active_debts db1 uid = active_debts db2 uid"
    unfolding active_debts_def filter_scoped d ..
  show "get_financial_dashboard db1 uid now = get_financial_dashboard db2 uid now"
    unfolding get_financial_dashboard_def tq t i dq ..
qed

theorem user_scoped_noninterference_witness:
  "transactions one_user_database \<noteq> transactions two_user_database
   \<and> filter (\<lambda>t. tx_user_id t = 1) (transactions one_user_database)
     = filter (\<lambda>t. tx_user_id t = 1) (transactions two_user_database)
   \<and> get_transactions one_user_database 1 0 100 None None None None None None
     = get_transactions two_user_database 1 0 100 None None None None None None
   \<and> get_financial_dashboard one_user_database 1 sample_now
     = get_financial_dashboard two_user_database 1 sample_now"
proof -
  have ne: "transactions one_user_database \<noteq> transactions two_user_database"
    by (simp add: one_user_database_def two_user_database_def empty_database_def)
  have t: "filter (\<lambda>t. tx_user_id t = 1) (transactions one_user_database)
           = filter (\<lambda>t. tx_user_id t = 1) (transactions two_user_database)"
    by (simp add: one_user_database_def two_user_database_def empty_database_def
          sample_transaction_def transaction_base.extend_def transaction.fields_def
          transaction_base.defs transaction.defs sample_payload_def)
  have i: "filter (\<lambda>i. inv_user_id i = 1) (investments one_user_database)
           = filter (\<lambda>i. inv_user_id i = 1) (investments two_user_database)"
    by (simp add: one_user_database_def two_user_database_def empty_database_def)
  have d: "filter (\<lambda>d. debt_user_id d = 1) (debts one_user_database)
           = filter (\<lambda>d. debt_user_id d = 1) (debts two_user_database)"
    by (simp add: one_user_database_def two_user_database_def empty_database_def)
  from ne t user_scoped_noninterference [OF t i d, of 0 100 None None None None None None sample_now]
  show ?thesis by simp
qed

subsection \<open>Debt payoff\<close>

lemma month_step_month:
  "current_month (month_step mp f s) = current_month s + 1"
  by (simp add: month_step_def Let_def split: prod.split)

lemma month_step_empty:
  "remaining_debts s = [] \<Longrightarrow> remaining_debts (month_step mp f s) = []"
  by (simp add: month_step_def Let_def pay_extra_def)

lemma funpow_month_step_empty:
  "remaining_debts s = [] \<Longrightarrow> remaining_debts ((month_step mp f ^^ n) s) = []"
  by (induction n) (simp_all add: month_step_empty)

lemma funpow_month_step_month:
  "current_month ((month_step mp f ^^ n) s) = current_month s + n"
  by (induction n) (simp_all add: month_step_month)

lemma payoff_loop_stop:
  "remaining_debts s = [] \<or> 360 \<le> current_month s \<Longrightarrow> payoff_loop mp f s = s"
  by (subst payoff_loop.simps) auto

lemma payoff_loop_step:
  "remaining_debts s \<noteq> [] \<Longrightarrow> current_month s < 360
   \<Longrightarrow> payoff_loop mp f s = payoff_loop mp f (month_step mp f s)"
  by (subst payoff_loop.simps) simp

text \<open>The loop is the body applied \<open>n\<close> times, \<open>n\<close> at most the months left to 360,
  and it ends without debts exactly when 360 months of the body leave none.\<close>

lemma payoff_loop_funpow:
  "current_month s \<le> 360 \<Longrightarrow>
   \<exists>n. n \<le> 360 - current_month s
       \<and> payoff_loop mp f s = (month_step mp f ^^ n) s
       \<and> (remaining_debts s \<noteq> [] \<and> current_month s < 360 \<longrightarrow> 1 \<le> n)
       \<and> (remaining_debts (payoff_loop mp f s) = []
            \<longleftrightarrow> remaining_debts ((month_step mp f ^^ (360 - current_month s)) s) = [])"
proof (induction mp f s rule: payoff_loop.induct)
  case (1 mp f s)
  show ?case
  proof (cases "remaining_debts s \<noteq> [] \<and> current_month s < 360")
    case False
    then have stop: "payoff_loop mp f s = s" by (intro payoff_loop_stop) auto
    show ?thesis
    proof (cases "remaining_debts s = []")
      case True
      then show ?thesis
        using stop funpow_month_step_empty [OF True, where mp = mp and f = f]
        by (intro exI [of _ 0]) simp
    next
      case nonempty: False
      with False "1.prems" have "current_month s = 360" by simp
      then show ?thesis using stop by (intro exI [of _ 0]) simp
    qed
  next
    case True
    let ?s = "month_step mp f s"
    have m: "current_month ?s = current_month s + 1" by (rule month_step_month)
    then have le: "current_month ?s \<le> 360" using True by simp
    from "1.IH" [OF True le] obtain n where
      n: "n \<le> 360 - current_month ?s" "payoff_loop mp f ?s = (month_step mp f ^^ n) ?s"
         "remaining_debts (payoff_loop mp f ?s) = []
            \<longleftrightarrow> remaining_debts ((month_step mp f ^^ (360 - current_month ?s)) ?s) = []"
      by blast
    have step: "payoff_loop mp f s = payoff_loop mp f ?s"
      using True by (intro payoff_loop_step) simp_all
    have suc: "360 - current_month s = Suc (360 - current_month ?s)" using m True by auto
    show ?thesis
    proof (intro exI [of _ "Suc n"] conjI)
      show "Suc n \<le> 360 - current_month s" using n(1) suc by simp
      show "payoff_loop mp f s = (month_step mp f ^^ Suc n) s"
        using step n(2) by (simp add: funpow_swap1)
      show "remaining_debts s \<noteq> [] \<and> current_month s < 360 \<longrightarrow> 1 \<le> Suc n" by simp
      show "remaining_debts (payoff_loop mp f s) = []
            \<longleftrightarrow> remaining_debts ((month_step mp f ^^ (360 - current_month s)) s) = []"
        using step n(3) suc by (simp add: funpow_swap1)
    qed
  qed
qed

lemma sort_debts_Nil: "sort_debts strategy ds = [] \<longleftrightarrow> ds = []"
  by (cases ds) (auto simp: sort_debts_def dest: arg_cong [where f = length])

lemma month_step_stuck:
  assumes "remaining_debts s = [e]" "0 < balance e" "entry_interest_rate e = 0"
    "entry_minimum_payment e = 0"
  shows "remaining_debts (month_step 0 f s) = [e]"
  using assms by (simp add: month_step_def pay_extra_def Let_def)

lemma funpow_month_step_stuck:
  assumes "remaining_debts s = [e]" "0 < balance e" "entry_interest_rate e = 0"
    "entry_minimum_payment e = 0"
  shows "remaining_debts ((month_step 0 f ^^ n) s) = [e]"
  using assms by (induction n) (simp_all add: month_step_stuck)

text \<open>
  C7. The debt payoff simulation terminates within 360 iterations: without active
  debts there is no simulation; otherwise the loop is its body run \<open>n\<close> times for some
  \<open>n\<close> between 1 and 360, and \<open>total_months\<close> is that \<open>n\<close> when 360 months of the
  body leave no debt and \<open>None\<close> exactly when they leave one.
\<close>

theorem debt_payoff_bounded:
  "(active_debts db uid = []
      \<longrightarrow> calculate_debt_payoff_strategy db uid f mp strategy = NoActiveDebts)
   \<and> (active_debts db uid \<noteq> [] \<longrightarrow>
        (let s0 = initial_payoff_state
                    (sort_debts strategy (map debt_entry_of (active_debts db uid)))
         in \<exists>n. 1 \<le> n \<and> n \<le> 360
              \<and> payoff_loop mp f s0 = (month_step mp f ^^ n) s0
              \<and> total_months (calculate_debt_payoff_strategy db uid f mp strategy)
                  = (if remaining_debts ((month_step mp f ^^ 360) s0) = []
                     then Some n else None)))"
proof (intro conjI impI)
  assume "active_debts db uid = []"
  then show "calculate_debt_payoff_strategy db uid f mp strategy = NoActiveDebts"
    by (simp add: calculate_debt_payoff_strategy_def)
next
  assume ne: "active_debts db uid \<noteq> []"
  define s0 where
    "s0 = initial_payoff_state (sort_debts strategy (map debt_entry_of (active_debts db uid)))"
  have m0: "current_month s0 = 0" by (simp add: s0_def initial_payoff_state_def)
  have r0: "remaining_debts s0 \<noteq> []"
    using ne by (simp add: s0_def initial_payoff_state_def sort_debts_Nil)
  have "current_month s0 \<le> 360" using m0 by simp
  from payoff_loop_funpow [OF this, where mp = mp and f = f] obtain n where
    n: "n \<le> 360 - current_month s0" "payoff_loop mp f s0 = (month_step mp f ^^ n) s0"
       "remaining_debts s0 \<noteq> [] \<and> current_month s0 < 360 \<longrightarrow> 1 \<le> n"
       "remaining_debts (payoff_loop mp f s0) = []
          \<longleftrightarrow> remaining_debts ((month_step mp f ^^ (360 - current_month s0)) s0) = []"
    by blast
  have n1: "1 \<le> n" "n \<le> 360" using n(1,3) m0 r0 by simp_all
  have n4: "remaining_debts (payoff_loop mp f s0) = []
          \<longleftrightarrow> remaining_debts ((month_step mp f ^^ 360) s0) = []"
    using n(4) m0 by simp
  have cm: "current_month (payoff_loop mp f s0) = n"
    using n(2) m0 by (simp add: funpow_month_step_month)
  have tm: "total_months (calculate_debt_payoff_strategy db uid f mp strategy)
          = (if remaining_debts (payoff_loop mp f s0) = []
             then Some (current_month (payoff_loop mp f s0)) else None)"
    using ne by (simp add: calculate_debt_payoff_strategy_def Let_def s0_def)
  have "total_months (calculate_debt_payoff_strategy db uid f mp strategy)
          = (if remaining_debts ((month_step mp f ^^ 360) s0) = [] then Some n else None)"
    unfolding tm n4 cm ..
  with n1 n(2) have "\<exists>n. 1 \<le> n \<and> n \<le> 360
              \<and> payoff_loop mp f s0 = (month_step mp f ^^ n) s0
              \<and> total_months (calculate_debt_payoff_strategy db uid f mp strategy)
                  = (if remaining_debts ((month_step mp f ^^ 360) s0) = []
                     then Some n else None)"
    by blast
  then show "let s0 = initial_payoff_state
                        (sort_debts strategy (map debt_entry_of (active_debts db uid)))
             in \<exists>n. 1 \<le> n \<and> n \<le> 360
              \<and> payoff_loop mp f s0 = (month_step mp f ^^ n) s0
              \<and> total_months (calculate_debt_payoff_strategy db uid f mp strategy)
                  = (if remaining_debts ((month_step mp f ^^ 360) s0) = []
                     then Some n else None)"
    unfolding Let_def s0_def .
qed

theorem debt_payoff_bounded_witness:
  "active_debts paying_database 1 \<noteq> []
   \<and> total_months (calculate_debt_payoff_strategy paying_database 1 sample_date_after 300
        ''avalanche'') = Some 4
   \<and> remaining_debts
        ((month_step 300 sample_date_after ^^ 360)
           (initial_payoff_state
              (sort_debts ''avalanche'' (map debt_entry_of (active_debts paying_database 1)))))
       = []
   \<and> active_debts stuck_database 1 \<noteq> []
   \<and> remaining_debts
        ((month_step 0 sample_date_after ^^ 360)
           (initial_payoff_state
              (sort_debts ''snowball'' (map debt_entry_of (active_debts stuck_database 1)))))
       \<noteq> []
   \<and> total_months (calculate_debt_payoff_strategy stuck_database 1 sample_date_after 0
        ''snowball'') = None"
proof -
  have a: "active_debts paying_database 1 \<noteq> []"
    by (simp add: active_debts_def paying_database_def empty_database_def sample_debt_def)
  have b: "active_debts stuck_database 1 = [sample_debt 1000 0 0]"
    by (simp add: active_debts_def stuck_database_def empty_database_def sample_debt_def)
  have v: "total_months (calculate_debt_payoff_strategy paying_database 1 sample_date_after 300
             ''avalanche'') = Some 4"
    by code_simp
  from a v debt_payoff_bounded [where db = paying_database and uid = 1
      and f = sample_date_after and mp = 300 and strategy = "''avalanche''"]
  have p: "remaining_debts
        ((month_step 300 sample_date_after ^^ 360)
           (initial_payoff_state
              (sort_debts ''avalanche'' (map debt_entry_of (active_debts paying_database 1)))))
       = []"
    unfolding Let_def by (metis option.distinct(1))
  have r: "remaining_debts (initial_payoff_state
              (sort_debts ''snowball'' (map debt_entry_of (active_debts stuck_database 1))))
           = [debt_entry_of (sample_debt 1000 0 0)]"
    by (simp add: b initial_payoff_state_def sort_debts_def)
  have q: "remaining_debts
        ((month_step 0 sample_date_after ^^ 360)
           (initial_payoff_state
              (sort_debts ''snowball'' (map debt_entry_of (active_debts stuck_database 1)))))
       \<noteq> []"
    using funpow_month_step_stuck [OF r, where f = sample_date_after and n = 360]
    by (simp add: debt_entry_of_def sample_debt_def)
  have b': "active_debts stuck_database 1 \<noteq> []" using b by simp
  from b' q debt_payoff_bounded [where db = stuck_database and uid = 1
      and f = sample_date_after and mp = 0 and strategy = "''snowball''"]
  have w: "total_months (calculate_debt_payoff_strategy stuck_database 1 sample_date_after 0
             ''snowball'') = None"
    unfolding Let_def by metis
  from a b' v w p q show ?thesis by blast
qed

subsection \<open>Notifications\<close>

text \<open>
  C8. \<open>send_notification\<close> delivers nothing beyond console lines: the database after
  the call is the database before it with one log row appended, that row is the one
  returned and carries the arguments, and its status is \<open>skipped\<close> exactly when
  \<open>_is_notification_enabled\<close> rejects the stored preferences (no preferences row
  counts as enabled) and \<open>sent\<close> otherwise; a skipped notification prints nothing.
\<close>

theorem send_notification_status:
  "case send_notification db show_id now uid ntype cat ttl msg delivery extra of
     (db', printed, entry) \<Rightarrow>
       db' = db \<lparr> notification_logs := notification_logs db @ [entry] \<rparr>
       \<and> (status entry = ''skipped''
            \<longleftrightarrow> \<not> is_notification_enabled
                     (find (\<lambda>p. pref_user_id p = uid) (preferences db)) ntype cat)
       \<and> (status entry = ''sent''
            \<longleftrightarrow> is_notification_enabled
                   (find (\<lambda>p. pref_user_id p = uid) (preferences db)) ntype cat)
       \<and> (find (\<lambda>p. pref_user_id p = uid) (preferences db) = None \<longrightarrow> status entry = ''sent'')
       \<and> nl_user_id entry = uid \<and> notification_type entry = ntype \<and> nl_category entry = cat
       \<and> title entry = ttl \<and> message entry = msg \<and> delivery_method entry = delivery
       \<and> extra_data entry = extra
       \<and> (status entry = ''skipped'' \<longrightarrow> printed = [])
       \<and> length printed \<le> 1"
proof -
  let ?prefs = "find (\<lambda>p. pref_user_id p = uid) (preferences db)"
  have none: "\<not> is_notification_enabled ?prefs ntype cat \<Longrightarrow> \<exists>p. ?prefs = Some p"
    by (cases ?prefs) (simp_all add: is_notification_enabled_def)
  show ?thesis
    using none
    by (cases "is_notification_enabled ?prefs ntype cat")
       (auto simp: send_notification_def create_notification_log_def Let_def
          send_email_notification_def send_push_notification_def)
qed

theorem send_notification_status_witness:
  "\<not> is_notification_enabled
       (find (\<lambda>p. pref_user_id p = 1) (preferences notified_database)) ''email'' ''reminder''
   \<and> find (\<lambda>p. pref_user_id p = 2) (preferences notified_database) = None
   \<and> status (snd (snd (send_notification notified_database sample_show_id sample_now 1
                         ''email'' ''reminder'' ''Hi'' ''Hello'' None None))) = ''skipped''
   \<and> fst (snd (send_notification notified_database sample_show_id sample_now 1
                  ''email'' ''reminder'' ''Hi'' ''Hello'' None None)) = []
   \<and> status (snd (snd (send_notification notified_database sample_show_id sample_now 2
                         ''email'' ''reminder'' ''Hi'' ''Hello'' None None))) = ''sent''"
proof -
  have a: "\<not> is_notification_enabled
       (find (\<lambda>p. pref_user_id p = 1) (preferences notified_database)) ''email'' ''reminder''"
    by (simp add: is_notification_enabled_def notified_database_def empty_database_def
          sample_preferences_def truthy_bool_def)
  have b: "find (\<lambda>p. pref_user_id p = 2) (preferences notified_database) = None"
    by (simp add: notified_database_def empty_database_def sample_preferences_def)
  from a b
    send_notification_status [where db = notified_database and show_id = sample_show_id
      and now = sample_now and uid = 1 and ntype = "''email''" and cat = "''reminder''"
      and ttl = "''Hi''" and msg = "''Hello''" and delivery = None and extra = None]
    send_notification_status [where db = notified_database and show_id = sample_show_id
      and now = sample_now and uid = 2 and ntype = "''email''" and cat = "''reminder''"
      and ttl = "''Hi''" and msg = "''Hello''" and delivery = None and extra = None]
  show ?thesis by (auto split: prod.splits)
qed

lemma update_first_index:
  "i < length xs \<Longrightarrow> P (xs ! i) \<Longrightarrow> (\<forall>j<i. \<not> P (xs ! j))
   \<Longrightarrow> update_first P g xs = xs[i := g (xs ! i)]"
proof (induction xs arbitrary: i)
  case Nil
  then show ?case by simp
next
  case (Cons x xs)
  show ?case
  proof (cases i)
    case 0
    then show ?thesis using Cons.prems by simp
  next
    case (Suc k)
    have "\<not> P x" using Cons.prems(3) Suc by auto
    moreover have "update_first P g xs = xs[k := g (xs ! k)]"
      using Cons.prems Suc by (intro Cons.IH) auto
    ultimately show ?thesis using Suc by simp
  qed
qed

text \<open>
  C10. Frame of \<open>mark_notification_read\<close>: when no log row has the id and the user,
  the database is returned unchanged with \<open>None\<close>; otherwise one position of the log
  table, holding a row with that id and user, is replaced by the same row with
  \<open>read_at\<close> and \<open>status\<close> set, every other position, field and table is as before,
  and the updated row is returned.
\<close>

theorem mark_notification_read_frame:
  "(\<not> (\<exists>n \<in> set (notification_logs db). nl_id n = nid \<and> nl_user_id n = uid)
      \<longrightarrow> mark_notification_read db now nid uid = (db, None))
   \<and> ((\<exists>n \<in> set (notification_logs db). nl_id n = nid \<and> nl_user_id n = uid)
      \<longrightarrow> (\<exists>i < length (notification_logs db).
             nl_id (notification_logs db ! i) = nid
             \<and> nl_user_id (notification_logs db ! i) = uid
             \<and> mark_notification_read db now nid uid
                = (db \<lparr> notification_logs := (notification_logs db)
                          [i := (notification_logs db ! i)
                                  \<lparr> read_at := Some now, status := ''read'' \<rparr>] \<rparr>,
                   Some ((notification_logs db ! i)
                           \<lparr> read_at := Some now, status := ''read'' \<rparr>))))"
proof (intro conjI impI)
  assume "\<not> (\<exists>n \<in> set (notification_logs db). nl_id n = nid \<and> nl_user_id n = uid)"
  then have "find (\<lambda>n. nl_id n = nid \<and> nl_user_id n = uid) (notification_logs db) = None"
    by (simp add: find_None_iff)
  then show "mark_notification_read db now nid uid = (db, None)"
    by (simp add: mark_notification_read_def)
next
  let ?P = "\<lambda>n. nl_id n = nid \<and> nl_user_id n = uid"
  let ?g = "\<lambda>n. n \<lparr> read_at := Some now, status := ''read'' \<rparr>"
  let ?xs = "notification_logs db"
  assume "\<exists>n \<in> set ?xs. nl_id n = nid \<and> nl_user_id n = uid"
  then have "find ?P ?xs \<noteq> None" by (auto simp: find_None_iff)
  then obtain x where x: "find ?P ?xs = Some x" by blast
  then obtain i where i: "i < length ?xs" "?P (?xs ! i)" "x = ?xs ! i" "\<forall>j<i. \<not> ?P (?xs ! j)"
    unfolding find_Some_iff by blast
  have u: "update_first ?P ?g ?xs = ?xs[i := ?g (?xs ! i)]"
    using i(1,2,4) by (rule update_first_index)
  have "mark_notification_read db now nid uid
          = (db \<lparr> notification_logs := ?xs[i := ?g (?xs ! i)] \<rparr>, Some (?g (?xs ! i)))"
    using x i(3) u by (simp add: mark_notification_read_def)
  with i(1,2) show "\<exists>i < length ?xs.
             nl_id (?xs ! i) = nid \<and> nl_user_id (?xs ! i) = uid
             \<and> mark_notification_read db now nid uid
                = (db \<lparr> notification_logs := ?xs[i := ?g (?xs ! i)] \<rparr>, Some (?g (?xs ! i)))"
    by blast
qed

theorem mark_notification_read_frame_witness:
  "(\<exists>n \<in> set (notification_logs notified_database). nl_id n = 2 \<and> nl_user_id n = 1)
   \<and> \<not> (\<exists>n \<in> set (notification_logs notified_database). nl_id n = 1 \<and> nl_user_id n = 1)
   \<and> mark_notification_read notified_database sample_now 1 1 = (notified_database, None)
   \<and> mark_notification_read notified_database sample_now 2 1
       = (notified_database
            \<lparr> notification_logs :=
                [sample_log 1 2,
                 (sample_log 2 1) \<lparr> read_at := Some sample_now, status := ''read'' \<rparr>] \<rparr>,
          Some ((sample_log 2 1) \<lparr> read_at := Some sample_now, status := ''read'' \<rparr>))"
proof -
  have l: "notification_logs notified_database = [sample_log 1 2, sample_log 2 1]"
    by (simp add: notified_database_def empty_database_def)
  have a: "\<exists>n \<in> set (notification_logs notified_database). nl_id n = 2 \<and> nl_user_id n = 1"
    by (simp add: l sample_log_def)
  have b: "\<not> (\<exists>n \<in> set (notification_logs notified_database). nl_id n = 1 \<and> nl_user_id n = 1)"
    by (simp add: l sample_log_def)
  from b mark_notification_read_frame [where db = notified_database and nid = 1 and uid = 1 and now = sample_now]
  have c: "mark_notification_read notified_database sample_now 1 1 = (notified_database, None)"
    by blast
  from a mark_notification_read_frame [where db = notified_database and nid = 2 and uid = 1 and now = sample_now]
  obtain i where i: "i < length (notification_logs notified_database)"
      "nl_id (notification_logs notified_database ! i) = 2"
      "mark_notification_read notified_database sample_now 2 1
         = (notified_database \<lparr> notification_logs := (notification_logs notified_database)
               [i := (notification_logs notified_database ! i)
                       \<lparr> read_at := Some sample_now, status := ''read'' \<rparr>] \<rparr>,
            Some ((notification_logs notified_database ! i)
                    \<lparr> read_at := Some sample_now, status := ''read'' \<rparr>))"
    by blast
  have "i = 1"
    using i(1,2) unfolding l by (cases i) (simp_all add: sample_log_def)
  with i(3) have d: "mark_notification_read notified_database sample_now 2 1
       = (notified_database
            \<lparr> notification_logs :=
                [sample_log 1 2,
                 (sample_log 2 1) \<lparr> read_at := Some sample_now, status := ''read'' \<rparr>] \<rparr>,
          Some ((sample_log 2 1) \<lparr> read_at := Some sample_now, status := ''read'' \<rparr>))"
    by (simp add: l)
  from a b c d show ?thesis by blast
qed

subsection \<open>Binary floating point and the body mass index\<close>









































end
